theory Spec2Isabelle
  imports Main "HOL-Library.Sublist" "HOL-Library.AList"
begin

section \<open>Container analysis for the migration manifest\<close>

text \<open>
  A shallow embedding of \<^verbatim>\<open>scripts/analyze_containers.py\<close>: the proxy detector, the
  signal extractors, the classifier, the candidacy and risk evaluators, the label
  recommender and the per-container loop of \<^verbatim>\<open>main\<close>.

  Conventions of the embedding.
  \<^item> A Python \<^verbatim>\<open>str\<close> is a \<open>string\<close>; \<^verbatim>\<open>str.lower\<close> lowers the ASCII letters.
  \<^item> A Python \<^verbatim>\<open>dict\<close> is an association list in insertion order; \<^verbatim>\<open>d[k] = v\<close>
    overwrites the value in place or appends a new key at the end.
  \<^item> A key read with \<^verbatim>\<open>d['k']\<close> is a plain record field. A key read with
    \<^verbatim>\<open>d.get('k', default)\<close> is a \<open>field\<close>: absent, JSON \<^verbatim>\<open>null\<close>, or present.
  \<^item> A Python exception is the left injection of a sum.
\<close>

subsection \<open>Strings\<close>

definition lower_char :: "char \<Rightarrow> char" where
  "lower_char c =
     (let n = (of_char c :: nat) in if 65 \<le> n \<and> n \<le> 90 then char_of (n + 32) else c)"

definition lower :: "string \<Rightarrow> string" where
  "lower s = map lower_char s"

text \<open>\<^verbatim>\<open>p in s\<close> on strings: \<open>p\<close> occurs in \<open>s\<close> as a contiguous block.\<close>

fun str_in :: "string \<Rightarrow> string \<Rightarrow> bool" where
  "str_in p [] = (p = [])"
| "str_in p (c # s) = (prefix p (c # s) \<or> str_in p s)"

text \<open>\<^verbatim>\<open>s.startswith(p)\<close>\<close>

definition startswith :: "string \<Rightarrow> string \<Rightarrow> bool" where
  "startswith s p = prefix p s"

text \<open>\<^verbatim>\<open>s.split(sep)[0]\<close>: the text before the first separator, all of \<open>s\<close> without one.\<close>

definition split_head :: "char \<Rightarrow> string \<Rightarrow> string" where
  "split_head sep s = takeWhile (\<lambda>x. x \<noteq> sep) s"

text \<open>The second component of \<^verbatim>\<open>s.split(sep, 1)\<close> when \<open>sep\<close> occurs in \<open>s\<close>.\<close>

definition split_rest :: "char \<Rightarrow> string \<Rightarrow> string" where
  "split_rest sep s = tl (dropWhile (\<lambda>x. x \<noteq> sep) s)"

text \<open>\<^verbatim>\<open>s.lstrip('/')\<close>\<close>

definition lstrip_slash :: "string \<Rightarrow> string" where
  "lstrip_slash s = dropWhile (\<lambda>x. x = CHR ''/'') s"

text \<open>\<^verbatim>\<open>s.replace('-', '_').replace('.', '_')\<close>\<close>

definition replace_char :: "char \<Rightarrow> char \<Rightarrow> string \<Rightarrow> string" where
  "replace_char a b s = map (\<lambda>x. if x = a then b else x) s"

subsection \<open>Dictionaries\<close>

type_synonym ('k, 'v) dict = "('k \<times> 'v) list"

definition dict_set :: "'k \<Rightarrow> 'v \<Rightarrow> ('k, 'v) dict \<Rightarrow> ('k, 'v) dict" where
  "dict_set k v d = AList.update k v d"

definition dict_get :: "('k, 'v) dict \<Rightarrow> 'k \<Rightarrow> 'v \<Rightarrow> 'v" where
  "dict_get d k dflt = (case map_of d k of None \<Rightarrow> dflt | Some v \<Rightarrow> v)"

definition dict_keys :: "('k, 'v) dict \<Rightarrow> 'k list" where
  "dict_keys d = map fst d"

subsection \<open>The container record of \<^verbatim>\<open>docker inspect\<close>\<close>

datatype 'a field = Absent | JNull | Present 'a

datatype error = AttributeError

text \<open>\<^verbatim>\<open>x.get('k', {}) or {}\<close> and \<^verbatim>\<open>x.get('k', []) or []\<close>: absent, null and empty
  all give the empty collection.\<close>

definition or_empty :: "'a list field \<Rightarrow> 'a list" where
  "or_empty f = (case f of Present xs \<Rightarrow> xs | _ \<Rightarrow> [])"

record binding =
  HostIp :: string
  HostPort :: string

record network_settings =
  Ports :: "(string, binding list option) dict field"
  Networks :: "(string, unit) dict field"

record config =
  Image :: string
  Labels :: "(string, string) dict field"
  Env :: "string list field"
  ExposedPorts :: "(string, unit) dict field"

record state =
  Status :: string

record container =
  ContainerId :: string
  Name :: string
  Config :: config
  State :: state
  NetworkSettings :: "network_settings field"

subsection \<open>Lookup tables\<close>

definition REVERSE_PROXY_IMAGES :: "string list" where
  "REVERSE_PROXY_IMAGES =
     [''traefik'', ''nginx'', ''caddy'', ''haproxy'', ''envoy'',
      ''nginx-proxy-manager'', ''kong'', ''istio'', ''jwilder/nginx-proxy'',
      ''nginxproxy/nginx-proxy'', ''lucaslorentz/caddy-docker-proxy'']"

definition PROXY_NETWORK_PATTERNS :: "string list" where
  "PROXY_NETWORK_PATTERNS = [''traefik'', ''edge'', ''ingress'', ''proxy'', ''gateway'']"

definition HTTP_SERVICE_PORTS :: "string list" where
  "HTTP_SERVICE_PORTS =
     [''80'', ''443'', ''8080'', ''8443'', ''3000'', ''5000'', ''8000'', ''8888'', ''9000'']"

subsection \<open>Access to \<^verbatim>\<open>NetworkSettings\<close>\<close>

text \<open>
  \<^verbatim>\<open>container.get('NetworkSettings', {})\<close> gives the empty dict when the key is absent and
  \<^verbatim>\<open>None\<close> when its value is null; the \<^verbatim>\<open>.get\<close> that follows raises
  \<^verbatim>\<open>AttributeError\<close> on \<^verbatim>\<open>None\<close>.
\<close>

definition get_NetworkSettings :: "container \<Rightarrow> error + network_settings" where
  "get_NetworkSettings c =
     (case NetworkSettings c of
        Absent \<Rightarrow> Inr \<lparr>Ports = Absent, Networks = Absent\<rparr>
      | JNull \<Rightarrow> Inl AttributeError
      | Present ns \<Rightarrow> Inr ns)"

text \<open>\<^verbatim>\<open>container.get('NetworkSettings', {}).get('Ports', {}) or {}\<close>\<close>

definition ports_config :: "container \<Rightarrow> error + (string, binding list option) dict" where
  "ports_config c =
     (case get_NetworkSettings c of Inl e \<Rightarrow> Inl e | Inr ns \<Rightarrow> Inr (or_empty (Ports ns)))"

text \<open>\<^verbatim>\<open>list((container.get('NetworkSettings', {}).get('Networks', {}) or {}).keys())\<close>\<close>

definition container_networks :: "container \<Rightarrow> error + string list" where
  "container_networks c =
     (case get_NetworkSettings c of
        Inl e \<Rightarrow> Inl e
      | Inr ns \<Rightarrow> Inr (dict_keys (or_empty (Networks ns))))"

subsection \<open>Proxy detector\<close>

text \<open>\<^verbatim>\<open>'80/tcp' in ports and ports['80/tcp']\<close>: the key is there with a non-empty
  binding list.\<close>

definition bound_port :: "string \<Rightarrow> (string, binding list option) dict \<Rightarrow> bool" where
  "bound_port p ports =
     (case map_of ports p of
        None \<Rightarrow> False
      | Some None \<Rightarrow> False
      | Some (Some bs) \<Rightarrow> bs \<noteq> [])"

definition is_reverse_proxy :: "container \<Rightarrow> error + bool" where
  "is_reverse_proxy c =
     (let image = lower (Image (Config c)) in
      if list_ex (\<lambda>proxy_image. str_in proxy_image image) REVERSE_PROXY_IMAGES then Inr True
      else
        (case ports_config c of
           Inl e \<Rightarrow> Inl e
         | Inr ports \<Rightarrow>
             (let has_80 = bound_port ''80/tcp'' ports;
                  has_443 = bound_port ''443/tcp'' ports
              in if has_80 \<and> has_443 then
                   (let labels = or_empty (Labels (Config c)) in
                    if str_in ''traefik'' image
                       \<or> list_ex (\<lambda>k. str_in ''traefik'' (lower k)) (dict_keys labels)
                    then Inr True else Inr False)
                 else Inr False)))"

subsection \<open>Signal extractors\<close>

record proxy_signals =
  traefik_labels :: "(string, string) dict"
  nginx_proxy_env :: "(string, string) dict"
  caddy_labels :: "(string, string) dict"
  has_proxy_signals :: bool

text \<open>The loop that parses \<^verbatim>\<open>Env\<close> into a dict (lines 82 to 86).\<close>

definition parse_env_step :: "string \<Rightarrow> (string, string) dict \<Rightarrow> (string, string) dict" where
  "parse_env_step e env =
     (if CHR ''='' \<in> set e
      then dict_set (split_head CHR ''='' e) (split_rest CHR ''='' e) env
      else env)"

definition parse_env :: "string list \<Rightarrow> (string, string) dict" where
  "parse_env env_list = fold parse_env_step env_list []"

definition traefik_step :: "string \<times> string \<Rightarrow> proxy_signals \<Rightarrow> proxy_signals" where
  "traefik_step kv signals =
     (if startswith (fst kv) ''traefik.''
      then signals\<lparr>traefik_labels := dict_set (fst kv) (snd kv) (traefik_labels signals),
                   has_proxy_signals := True\<rparr>
      else signals)"

definition nginx_proxy_vars :: "string list" where
  "nginx_proxy_vars =
     [''VIRTUAL_HOST'', ''VIRTUAL_PORT'', ''LETSENCRYPT_HOST'', ''LETSENCRYPT_EMAIL'']"

definition nginx_step :: "(string, string) dict \<Rightarrow> string \<Rightarrow> proxy_signals \<Rightarrow> proxy_signals" where
  "nginx_step env var signals =
     (case map_of env var of
        Some v \<Rightarrow> signals\<lparr>nginx_proxy_env := dict_set var v (nginx_proxy_env signals),
                          has_proxy_signals := True\<rparr>
      | None \<Rightarrow> signals)"

definition caddy_step :: "string \<times> string \<Rightarrow> proxy_signals \<Rightarrow> proxy_signals" where
  "caddy_step kv signals =
     (if startswith (fst kv) ''caddy'' \<or> str_in ''caddy.reverse_proxy'' (lower (fst kv))
      then signals\<lparr>caddy_labels := dict_set (fst kv) (snd kv) (caddy_labels signals),
                   has_proxy_signals := True\<rparr>
      else signals)"

definition detect_proxy_signals :: "container \<Rightarrow> proxy_signals" where
  "detect_proxy_signals c =
     (let labels = or_empty (Labels (Config c));
          env_list = or_empty (Env (Config c));
          env = parse_env env_list;
          signals0 = \<lparr>traefik_labels = [], nginx_proxy_env = [], caddy_labels = [],
                      has_proxy_signals = False\<rparr>;
          signals1 = fold traefik_step labels signals0;
          signals2 = fold (nginx_step env) nginx_proxy_vars signals1;
          signals3 = fold caddy_step labels signals2
      in signals3)"

text \<open>\<^verbatim>\<open>f"{b['HostIp']}:{b['HostPort']}"\<close>\<close>

definition format_binding :: "binding \<Rightarrow> string" where
  "format_binding b = HostIp b @ '':'' @ HostPort b"

definition published_step ::
  "string \<times> binding list option \<Rightarrow> (string, string list) dict \<Rightarrow> (string, string list) dict"
where
  "published_step pb published =
     (case snd pb of
        None \<Rightarrow> published
      | Some bindings \<Rightarrow>
          if bindings \<noteq> [] then dict_set (fst pb) (map format_binding bindings) published
          else published)"

definition get_published_ports :: "container \<Rightarrow> error + (string, string list) dict" where
  "get_published_ports c =
     (case ports_config c of
        Inl e \<Rightarrow> Inl e
      | Inr pc \<Rightarrow> Inr (fold published_step pc []))"

definition get_exposed_ports :: "container \<Rightarrow> string list" where
  "get_exposed_ports c = dict_keys (or_empty (ExposedPorts (Config c)))"

definition is_in_proxy_network :: "string list \<Rightarrow> bool" where
  "is_in_proxy_network networks =
     list_ex (\<lambda>net. list_ex (\<lambda>pattern. str_in pattern (lower net)) PROXY_NETWORK_PATTERNS)
       networks"

subsection \<open>Classifier\<close>

definition classify_container :: "container \<Rightarrow> error + string" where
  "classify_container c =
     (let proxy_signals = detect_proxy_signals c in
      case get_published_ports c of
        Inl e \<Rightarrow> Inl e
      | Inr published_ports \<Rightarrow>
          (case container_networks c of
             Inl e \<Rightarrow> Inl e
           | Inr networks \<Rightarrow>
               if traefik_labels proxy_signals \<noteq> []
                  \<and> (lower (dict_get (traefik_labels proxy_signals) ''traefik.enable'' [])
                        = ''true''
                      \<or> is_in_proxy_network networks)
               then Inr ''already_proxied_traefik''
               else if nginx_proxy_env proxy_signals \<noteq> [] \<or> caddy_labels proxy_signals \<noteq> []
               then Inr ''already_proxied_other''
               else if published_ports \<noteq> [] \<and> \<not> has_proxy_signals proxy_signals
               then Inr ''exposed_directly''
               else if published_ports = [] \<and> \<not> has_proxy_signals proxy_signals
               then Inr ''internal_only''
               else Inr ''unknown_needs_review''))"

subsection \<open>Candidacy and risk evaluator\<close>

definition web_patterns :: "string list" where
  "web_patterns =
     [''web'', ''api'', ''http'', ''nginx'', ''apache'', ''flask'', ''django'', ''express'',
      ''node'', ''react'', ''next'']"

definition port_num :: "string \<Rightarrow> string" where
  "port_num port = split_head CHR ''/'' port"

definition is_http_service :: "container \<Rightarrow> bool" where
  "is_http_service c =
     (let image = lower (Image (Config c));
          exposed = get_exposed_ports c
      in if list_ex (\<lambda>port. port_num port \<in> set HTTP_SERVICE_PORTS) exposed then True
         else if list_ex (\<lambda>pattern. str_in pattern image) web_patterns then True
         else False)"

definition is_candidate_for_migration :: "container \<Rightarrow> string \<Rightarrow> error + (bool \<times> string)" where
  "is_candidate_for_migration c classification =
     (case is_reverse_proxy c of
        Inl e \<Rightarrow> Inl e
      | Inr rp \<Rightarrow>
          if rp then Inr (False, ''Container is a reverse proxy'')
          else if startswith classification ''already_proxied''
          then Inr (False, ''Already proxied ('' @ classification @ '')'')
          else if classification = ''exposed_directly''
          then (if is_http_service c
                then Inr (True, ''HTTP service exposed directly - good migration candidate'')
                else Inr (False, ''Exposed directly but not an HTTP service''))
          else if classification = ''internal_only''
          then (if is_http_service c
                then Inr (True, ''Internal HTTP service - could benefit from proxy exposure'')
                else Inr (False, ''Internal service, not HTTP''))
          else Inr (False, ''Needs manual review''))"

definition stateful :: "string list" where
  "stateful = [''postgres'', ''mysql'', ''mariadb'', ''redis'', ''mongo'', ''elasticsearch'']"

definition analyze_risks :: "container \<Rightarrow> (string, string list) dict \<Rightarrow> string list" where
  "analyze_risks c published_ports =
     (let risks1 =
            (if length published_ports > 1
             then [''Multiple published ports - may need separate routers''] else []);
          exposed = get_exposed_ports c;
          risks2 =
            risks1 @
            map (\<lambda>port. ''Non-HTTP port '' @ port_num port @ '' - may need TCP/UDP router'')
              (filter (\<lambda>port. port_num port \<notin> set HTTP_SERVICE_PORTS) exposed);
          labels = or_empty (Labels (Config c));
          risks3 =
            risks2 @
            (if list_ex (\<lambda>k. str_in ''auth'' (lower k)) (dict_keys labels)
             then [''May have authentication requirements''] else []);
          image = lower (Image (Config c));
          risks4 =
            risks3 @
            map (\<lambda>svc. ''Stateful database service - typically not proxied'')
              (filter (\<lambda>svc. str_in svc image) stateful)
      in risks4)"

subsection \<open>Label recommender\<close>

text \<open>The loop with \<^verbatim>\<open>break\<close>: the first exposed port with an HTTP port number.\<close>

definition routing_port :: "string list \<Rightarrow> string" where
  "routing_port exposed =
     (case find (\<lambda>p. port_num p \<in> set HTTP_SERVICE_PORTS) exposed of
        None \<Rightarrow> ''80''
      | Some p \<Rightarrow> port_num p)"

definition generate_recommended_labels :: "container \<Rightarrow> (string, string) dict" where
  "generate_recommended_labels c =
     (let name = lstrip_slash (Name c);
          safe_name = replace_char CHR ''.'' CHR ''_'' (replace_char CHR ''-'' CHR ''_'' name);
          exposed = get_exposed_ports c;
          port = routing_port exposed
      in dict_set (''traefik.http.services.'' @ safe_name @ ''.loadbalancer.server.port'') port
        (dict_set (''traefik.http.routers.'' @ safe_name @ ''.tls'') ''true''
        (dict_set (''traefik.http.routers.'' @ safe_name @ ''.entrypoints'') ''websecure''
        (dict_set (''traefik.http.routers.'' @ safe_name @ ''.rule'')
           (''Host(`'' @ name @ ''.local`)'')
        (dict_set ''traefik.enable'' ''true'' [])))))"

subsection \<open>The per-container loop of \<^verbatim>\<open>main\<close>\<close>

record rp_entry =
  rp_container_id :: string
  rp_container_name :: string
  rp_image :: string
  rp_status :: string
  rp_networks :: "string list"
  rp_published_ports :: "(string, string list) dict"

record analysis_entry =
  container_id :: string
  container_name :: string
  image_ref :: string
  status :: string
  networks :: "string list"
  published_ports :: "(string, string list) dict"
  exposed_ports :: "string list"
  detected_proxy_signals :: proxy_signals
  classification :: string
  candidate_for_migration :: bool
  migration_reason :: string
  recommended_labels :: "(string, string) dict"
  recommended_hostnames :: "string list"
  risks_notes :: "string list"

type_synonym lists = "rp_entry list \<times> analysis_entry list"

definition make_rp_entry :: "container \<Rightarrow> string list \<Rightarrow> (string, string list) dict \<Rightarrow> rp_entry"
where
  "make_rp_entry c nets published =
     \<lparr>rp_container_id = take 12 (ContainerId c),
      rp_container_name = lstrip_slash (Name c),
      rp_image = Image (Config c),
      rp_status = Status (State c),
      rp_networks = nets,
      rp_published_ports = published\<rparr>"

definition make_entry ::
  "container \<Rightarrow> string list \<Rightarrow> (string, string list) dict \<Rightarrow> string \<Rightarrow> bool \<times> string
     \<Rightarrow> analysis_entry"
where
  "make_entry c nets pub cls decision =
     \<lparr>container_id = take 12 (ContainerId c),
      container_name = lstrip_slash (Name c),
      image_ref = Image (Config c),
      status = Status (State c),
      networks = nets,
      published_ports = pub,
      exposed_ports = get_exposed_ports c,
      detected_proxy_signals = detect_proxy_signals c,
      classification = cls,
      candidate_for_migration = fst decision,
      migration_reason = snd decision,
      recommended_labels = (if fst decision then generate_recommended_labels c else []),
      recommended_hostnames = (if fst decision then [lstrip_slash (Name c) @ ''.local''] else []),
      risks_notes = analyze_risks c pub\<rparr>"

text \<open>One iteration of the loop body (lines 277 to 321): the two lists are the state.\<close>

definition main_step :: "container \<Rightarrow> lists \<Rightarrow> error + lists" where
  "main_step c acc =
     (case container_networks c of
        Inl e \<Rightarrow> Inl e
      | Inr nets \<Rightarrow>
          (case is_reverse_proxy c of
             Inl e \<Rightarrow> Inl e
           | Inr rp \<Rightarrow>
               if rp then
                 (case get_published_ports c of
                    Inl e \<Rightarrow> Inl e
                  | Inr published \<Rightarrow> Inr (fst acc @ [make_rp_entry c nets published], snd acc))
               else
                 (case get_published_ports c of
                    Inl e \<Rightarrow> Inl e
                  | Inr pub \<Rightarrow>
                      (case classify_container c of
                         Inl e \<Rightarrow> Inl e
                       | Inr cls \<Rightarrow>
                           (case is_candidate_for_migration c cls of
                              Inl e \<Rightarrow> Inl e
                            | Inr decision \<Rightarrow>
                                Inr (fst acc, snd acc @ [make_entry c nets pub cls decision]))))))"

fun main_loop :: "container list \<Rightarrow> lists \<Rightarrow> error + lists" where
  "main_loop [] acc = Inr acc"
| "main_loop (c # cs) acc =
     (case main_step c acc of Inl e \<Rightarrow> Inl e | Inr acc' \<Rightarrow> main_loop cs acc')"

text \<open>What the loop owes each container: the entry built from it, in one list or the other.\<close>

definition rp_entry_for :: "container \<Rightarrow> rp_entry \<Rightarrow> bool" where
  "rp_entry_for c e =
     (case (container_networks c, get_published_ports c) of
        (Inr nets, Inr pub) \<Rightarrow> e = make_rp_entry c nets pub
      | _ \<Rightarrow> False)"

definition analysis_entry_for :: "container \<Rightarrow> analysis_entry \<Rightarrow> bool" where
  "analysis_entry_for c e =
     (case (container_networks c, get_published_ports c, classify_container c) of
        (Inr nets, Inr pub, Inr cls) \<Rightarrow>
          (case is_candidate_for_migration c cls of
             Inr decision \<Rightarrow> e = make_entry c nets pub cls decision
           | Inl _ \<Rightarrow> False)
      | _ \<Rightarrow> False)"

subsection \<open>Missing substructures made explicit\<close>

definition fill_field :: "'a list field \<Rightarrow> 'a list field" where
  "fill_field f = Present (or_empty f)"

definition fill_network_settings :: "network_settings \<Rightarrow> network_settings" where
  "fill_network_settings ns =
     \<lparr>Ports = fill_field (Ports ns), Networks = fill_field (Networks ns)\<rparr>"

text \<open>The same record with every absent or null collection written out as an empty one.\<close>

definition fill_missing :: "container \<Rightarrow> container" where
  "fill_missing c =
     c\<lparr>Config :=
         \<lparr>Image = Image (Config c),
          Labels = fill_field (Labels (Config c)),
          Env = fill_field (Env (Config c)),
          ExposedPorts = fill_field (ExposedPorts (Config c))\<rparr>,
       NetworkSettings :=
         (case NetworkSettings c of
            Absent \<Rightarrow> Present \<lparr>Ports = Present [], Networks = Present []\<rparr>
          | JNull \<Rightarrow> JNull
          | Present ns \<Rightarrow> Present (fill_network_settings ns))\<rparr>"

subsection \<open>Sample containers\<close>

definition sample_binding :: "string \<Rightarrow> binding" where
  "sample_binding p = \<lparr>HostIp = ''0.0.0.0'', HostPort = p\<rparr>"

text \<open>An API service published on 8080, no labels, no environment.\<close>

definition api_container :: container where
  "api_container =
     \<lparr>ContainerId = ''0123456789abcdef0123'', Name = ''/my-api'',
      Config = \<lparr>Image = ''myapp/api:1.0'', Labels = JNull, Env = Absent,
                ExposedPorts = Present [(''8080/tcp'', ())]\<rparr>,
      State = \<lparr>Status = ''running''\<rparr>,
      NetworkSettings =
        Present \<lparr>Ports = Present [(''8080/tcp'', Some [sample_binding ''8080''])],
                 Networks = Present [(''backend'', ())]\<rparr>\<rparr>"

text \<open>The same image exposing 80 and 8080, with only 8080 published.\<close>

definition api_two_ports :: container where
  "api_two_ports =
     \<lparr>ContainerId = ''1123456789abcdef0123'', Name = ''/my-api'',
      Config = \<lparr>Image = ''myapp/api:1.0'', Labels = JNull, Env = Absent,
                ExposedPorts = Present [(''80/tcp'', ()), (''8080/tcp'', ())]\<rparr>,
      State = \<lparr>Status = ''running''\<rparr>,
      NetworkSettings =
        Present \<lparr>Ports = Present [(''80/tcp'', None),
                                   (''8080/tcp'', Some [sample_binding ''8080''])],
                 Networks = Present [(''backend'', ())]\<rparr>\<rparr>"

text \<open>Traefik labels with \<^verbatim>\<open>traefik.enable=True\<close>, on a network that is no proxy network.\<close>

definition traefik_enabled :: container where
  "traefik_enabled =
     \<lparr>ContainerId = ''2123456789abcdef0123'', Name = ''/shop'',
      Config = \<lparr>Image = ''myorg/shop:2'',
                Labels = Present [(''traefik.enable'', ''True''),
                                  (''traefik.http.routers.shop.entrypoints'', ''websecure'')],
                Env = Present [''PATH=/usr/bin''], ExposedPorts = Absent\<rparr>,
      State = \<lparr>Status = ''running''\<rparr>,
      NetworkSettings =
        Present \<lparr>Ports = Present [], Networks = Present [(''backend'', ())]\<rparr>\<rparr>"

text \<open>Traefik labels with \<^verbatim>\<open>traefik.enable=false\<close>, once with a published port and once
  without.\<close>

definition traefik_disabled :: "(string, binding list option) dict \<Rightarrow> container" where
  "traefik_disabled ports =
     \<lparr>ContainerId = ''3123456789abcdef0123'', Name = ''/wiki'',
      Config = \<lparr>Image = ''myorg/wiki:3'',
                Labels = Present [(''traefik.enable'', ''false''),
                                  (''traefik.http.routers.wiki.entrypoints'', ''websecure'')],
                Env = Present [''PATH=/usr/bin'', ''DEBUG''], ExposedPorts = Absent\<rparr>,
      State = \<lparr>Status = ''exited''\<rparr>,
      NetworkSettings =
        Present \<lparr>Ports = Present ports, Networks = Present [(''backend'', ())]\<rparr>\<rparr>"

text \<open>A relabelled router image that binds 80 and 443 and carries a Traefik label.\<close>

definition custom_router :: container where
  "custom_router =
     \<lparr>ContainerId = ''4123456789abcdef0123'', Name = ''/router'',
      Config = \<lparr>Image = ''custom/router:1'',
                Labels = Present [(''com.example.Traefik.role'', ''edge'')],
                Env = JNull, ExposedPorts = Present [(''443/tcp'', ()), (''80/tcp'', ())]\<rparr>,
      State = \<lparr>Status = ''running''\<rparr>,
      NetworkSettings =
        Present \<lparr>Ports = Present [(''443/tcp'', Some [sample_binding ''443'']),
                                   (''80/tcp'', Some [sample_binding ''80''])],
                 Networks = Absent\<rparr>\<rparr>"

text \<open>A plain web server that binds 80 and 443 and has nothing to do with Traefik.\<close>

definition plain_web :: container where
  "plain_web =
     \<lparr>ContainerId = ''5123456789abcdef0123'', Name = ''/site'',
      Config = \<lparr>Image = ''httpd:2.4'', Labels = Present [(''maintainer'', ''ops'')],
                Env = Absent, ExposedPorts = Present [(''443/tcp'', ()), (''80/tcp'', ())]\<rparr>,
      State = \<lparr>Status = ''running''\<rparr>,
      NetworkSettings =
        Present \<lparr>Ports = Present [(''443/tcp'', Some [sample_binding ''443'']),
                                   (''80/tcp'', Some [sample_binding ''80''])],
                 Networks = JNull\<rparr>\<rparr>"

text \<open>A record with every optional substructure absent or null.\<close>

definition bare_container :: container where
  "bare_container =
     \<lparr>ContainerId = ''6123456789abcdef0123'', Name = ''/cache'',
      Config = \<lparr>Image = ''redis:7'', Labels = JNull, Env = Absent, ExposedPorts = JNull\<rparr>,
      State = \<lparr>Status = ''created''\<rparr>,
      NetworkSettings = Present \<lparr>Ports = JNull, Networks = Absent\<rparr>\<rparr>"

section \<open>Properties\<close>

subsection \<open>Strings and dictionaries\<close>

lemma str_in_sublist: "str_in p s = sublist p s"
  by (induction s) (simp_all add: sublist_Cons_right)

lemma dict_set_nonempty: "dict_set k v d \<noteq> []"
  by (simp add: dict_set_def)

lemma map_of_dict_set: "map_of (dict_set k v d) k' = (if k' = k then Some v else map_of d k')"
  by (simp add: dict_set_def update_conv')

subsection \<open>The three scans of \<^verbatim>\<open>detect_proxy_signals\<close>\<close>

lemma traefik_fold_has:
  "has_proxy_signals (fold traefik_step xs s) =
     (has_proxy_signals s \<or> (\<exists>kv\<in>set xs. startswith (fst kv) ''traefik.''))"
  by (induction xs arbitrary: s) (auto simp: traefik_step_def)

lemma traefik_fold_nonempty:
  "(traefik_labels (fold traefik_step xs s) \<noteq> []) =
     (traefik_labels s \<noteq> [] \<or> (\<exists>kv\<in>set xs. startswith (fst kv) ''traefik.''))"
  by (induction xs arbitrary: s) (auto simp: traefik_step_def dict_set_nonempty)

lemma traefik_fold_others:
  "nginx_proxy_env (fold traefik_step xs s) = nginx_proxy_env s"
  "caddy_labels (fold traefik_step xs s) = caddy_labels s"
  by (induction xs arbitrary: s) (auto simp: traefik_step_def)

lemma traefik_fold_lookup:
  "distinct (map fst xs) \<Longrightarrow>
   map_of (traefik_labels (fold traefik_step xs s)) k =
     (if startswith k ''traefik.'' \<and> k \<in> fst ` set xs then map_of xs k
      else map_of (traefik_labels s) k)"
proof (induction xs arbitrary: s)
  case Nil
  then show ?case by simp
next
  case (Cons kv xs)
  then show ?case
    by (cases kv) (auto simp: traefik_step_def map_of_dict_set image_iff)
qed

lemma nginx_fold_has:
  "has_proxy_signals (fold (nginx_step env) vs s) =
     (has_proxy_signals s \<or> (\<exists>var\<in>set vs. map_of env var \<noteq> None))"
  by (induction vs arbitrary: s) (auto simp: nginx_step_def split: option.splits)

lemma nginx_fold_nonempty:
  "(nginx_proxy_env (fold (nginx_step env) vs s) \<noteq> []) =
     (nginx_proxy_env s \<noteq> [] \<or> (\<exists>var\<in>set vs. map_of env var \<noteq> None))"
  by (induction vs arbitrary: s) (auto simp: nginx_step_def dict_set_nonempty split: option.splits)

lemma nginx_fold_others:
  "traefik_labels (fold (nginx_step env) vs s) = traefik_labels s"
  "caddy_labels (fold (nginx_step env) vs s) = caddy_labels s"
  by (induction vs arbitrary: s) (auto simp: nginx_step_def split: option.splits)

lemma caddy_fold_has:
  "has_proxy_signals (fold caddy_step xs s) =
     (has_proxy_signals s
      \<or> (\<exists>kv\<in>set xs. startswith (fst kv) ''caddy''
                        \<or> str_in ''caddy.reverse_proxy'' (lower (fst kv))))"
  by (induction xs arbitrary: s) (auto simp: caddy_step_def)

lemma caddy_fold_nonempty:
  "(caddy_labels (fold caddy_step xs s) \<noteq> []) =
     (caddy_labels s \<noteq> []
      \<or> (\<exists>kv\<in>set xs. startswith (fst kv) ''caddy''
                        \<or> str_in ''caddy.reverse_proxy'' (lower (fst kv))))"
  by (induction xs arbitrary: s) (auto simp: caddy_step_def dict_set_nonempty)

lemma caddy_fold_others:
  "traefik_labels (fold caddy_step xs s) = traefik_labels s"
  "nginx_proxy_env (fold caddy_step xs s) = nginx_proxy_env s"
  by (induction xs arbitrary: s) (auto simp: caddy_step_def)

lemma detect_traefik_nonempty:
  "(traefik_labels (detect_proxy_signals c) \<noteq> []) =
     (\<exists>kv\<in>set (or_empty (Labels (Config c))). startswith (fst kv) ''traefik.'')"
  by (simp add: detect_proxy_signals_def Let_def caddy_fold_others nginx_fold_others
      traefik_fold_nonempty)

lemma detect_nginx_nonempty:
  "(nginx_proxy_env (detect_proxy_signals c) \<noteq> []) =
     (\<exists>var\<in>set nginx_proxy_vars. map_of (parse_env (or_empty (Env (Config c)))) var \<noteq> None)"
  by (simp add: detect_proxy_signals_def Let_def caddy_fold_others nginx_fold_nonempty
      traefik_fold_others)

lemma detect_caddy_nonempty:
  "(caddy_labels (detect_proxy_signals c) \<noteq> []) =
     (\<exists>kv\<in>set (or_empty (Labels (Config c))).
        startswith (fst kv) ''caddy'' \<or> str_in ''caddy.reverse_proxy'' (lower (fst kv)))"
  by (simp add: detect_proxy_signals_def Let_def caddy_fold_nonempty nginx_fold_others
      traefik_fold_others)

text \<open>The aggregate flag is set exactly when one of the three subsets is non-empty.\<close>

lemma detect_has:
  "has_proxy_signals (detect_proxy_signals c) =
     (traefik_labels (detect_proxy_signals c) \<noteq> []
      \<or> nginx_proxy_env (detect_proxy_signals c) \<noteq> []
      \<or> caddy_labels (detect_proxy_signals c) \<noteq> [])"
  unfolding detect_traefik_nonempty detect_nginx_nonempty detect_caddy_nonempty
  by (simp add: detect_proxy_signals_def Let_def caddy_fold_has nginx_fold_has traefik_fold_has)

lemma detect_traefik_lookup:
  assumes "distinct (dict_keys (or_empty (Labels (Config c))))"
  shows "map_of (traefik_labels (detect_proxy_signals c)) k =
     (if startswith k ''traefik.'' then map_of (or_empty (Labels (Config c))) k else None)"
proof -
  have n: "k \<notin> fst ` set (or_empty (Labels (Config c)))
        \<Longrightarrow> map_of (or_empty (Labels (Config c))) k = None"
    by (simp add: map_of_eq_None_iff)
  from assms show ?thesis
    by (simp add: detect_proxy_signals_def Let_def caddy_fold_others nginx_fold_others
        traefik_fold_lookup dict_keys_def n)
qed

subsection \<open>Where the functions return\<close>

lemma NetworkSettings_returns:
  "NetworkSettings c \<noteq> JNull \<Longrightarrow> \<exists>ns. get_NetworkSettings c = Inr ns"
  by (cases "NetworkSettings c") (simp_all add: get_NetworkSettings_def)

lemma published_returns:
  "NetworkSettings c \<noteq> JNull \<Longrightarrow> \<exists>pub. get_published_ports c = Inr pub"
  using NetworkSettings_returns [of c]
  by (auto simp: get_published_ports_def ports_config_def)

lemma networks_returns:
  "NetworkSettings c \<noteq> JNull \<Longrightarrow> \<exists>nets. container_networks c = Inr nets"
  using NetworkSettings_returns [of c]
  by (auto simp: container_networks_def)

lemma networks_of_published:
  "get_published_ports c = Inr pub \<Longrightarrow> \<exists>nets. container_networks c = Inr nets"
  by (auto simp: get_published_ports_def ports_config_def container_networks_def
      split: sum.splits)

lemma reverse_proxy_returns:
  "NetworkSettings c \<noteq> JNull \<Longrightarrow> \<exists>b. is_reverse_proxy c = Inr b"
  using NetworkSettings_returns [of c]
  by (auto simp: is_reverse_proxy_def ports_config_def Let_def)

text \<open>A null \<^verbatim>\<open>NetworkSettings\<close> is the one input on which the extractors raise.\<close>

lemma published_raises:
  "NetworkSettings c = JNull \<Longrightarrow> get_published_ports c = Inl AttributeError"
  by (simp add: get_published_ports_def ports_config_def get_NetworkSettings_def)

subsection \<open>The classifier as a decision table\<close>

lemma classify_unfold:
  assumes "get_published_ports c = Inr pub" and "container_networks c = Inr nets"
  shows "classify_container c =
     Inr (if traefik_labels (detect_proxy_signals c) \<noteq> []
             \<and> (lower (dict_get (traefik_labels (detect_proxy_signals c)) ''traefik.enable'' [])
                   = ''true''
                 \<or> is_in_proxy_network nets)
          then ''already_proxied_traefik''
          else if nginx_proxy_env (detect_proxy_signals c) \<noteq> []
                  \<or> caddy_labels (detect_proxy_signals c) \<noteq> []
          then ''already_proxied_other''
          else if pub \<noteq> [] \<and> \<not> has_proxy_signals (detect_proxy_signals c)
          then ''exposed_directly''
          else if pub = [] \<and> \<not> has_proxy_signals (detect_proxy_signals c)
          then ''internal_only''
          else ''unknown_needs_review'')"
  using assms by (simp add: classify_container_def Let_def)

text \<open>With unique label keys, the \<^verbatim>\<open>traefik.enable\<close> value the classifier reads is the
  container's own label value.\<close>

lemma traefik_enable_value:
  assumes "distinct (dict_keys (or_empty (Labels (Config c))))"
  shows "dict_get (traefik_labels (detect_proxy_signals c)) ''traefik.enable'' []
           = dict_get (or_empty (Labels (Config c))) ''traefik.enable'' []"
proof -
  have "startswith ''traefik.enable'' ''traefik.''"
    by (simp add: startswith_def)
  then show ?thesis
    by (simp add: dict_get_def detect_traefik_lookup [OF assms])
qed

subsection \<open>Candidacy\<close>

text \<open>
  Claim C1. For every container and every classification string, the candidacy decision
  is \<open>True\<close> exactly when the detector says the container is not a reverse proxy, the
  classification is \<^verbatim>\<open>exposed_directly\<close> or \<^verbatim>\<open>internal_only\<close>, and
  \<open>is_http_service\<close> holds. A classification that starts with \<^verbatim>\<open>already_proxied\<close> and
  \<^verbatim>\<open>unknown_needs_review\<close> never give a candidate, a reverse proxy is rejected whatever
  classification is passed in, and the decision returns whenever the detector does.
\<close>

theorem candidacy_iff:
  "((\<exists>reason. is_candidate_for_migration c cls = Inr (True, reason))
      \<longleftrightarrow> is_reverse_proxy c = Inr False
          \<and> (cls = ''exposed_directly'' \<or> cls = ''internal_only'')
          \<and> is_http_service c)
   \<and> (startswith cls ''already_proxied''
        \<longrightarrow> (\<forall>reason. is_candidate_for_migration c cls \<noteq> Inr (True, reason)))
   \<and> (\<forall>reason. is_candidate_for_migration c ''unknown_needs_review'' \<noteq> Inr (True, reason))
   \<and> (is_reverse_proxy c = Inr True
        \<longrightarrow> is_candidate_for_migration c cls = Inr (False, ''Container is a reverse proxy''))
   \<and> (\<forall>b. is_reverse_proxy c = Inr b
        \<longrightarrow> (\<exists>d. is_candidate_for_migration c cls = Inr d))"
proof -
  have a: "\<not> startswith ''exposed_directly'' ''already_proxied''"
    and b: "\<not> startswith ''internal_only'' ''already_proxied''"
    by (simp_all add: startswith_def)
  show ?thesis
    using a b
    by (cases "is_reverse_proxy c")
       (auto simp: is_candidate_for_migration_def)
qed

theorem candidacy_iff_witness:
  "(\<exists>reason. is_candidate_for_migration api_container ''exposed_directly'' = Inr (True, reason))
   \<and> startswith ''already_proxied_traefik'' ''already_proxied''
   \<and> is_candidate_for_migration api_container ''already_proxied_traefik''
        \<noteq> Inr (True, ''HTTP service exposed directly - good migration candidate'')
   \<and> is_reverse_proxy custom_router = Inr True
   \<and> is_candidate_for_migration custom_router ''exposed_directly''
        = Inr (False, ''Container is a reverse proxy'')"
proof -
  have rp: "is_reverse_proxy api_container = Inr False" by code_simp
  have http: "is_http_service api_container" by code_simp
  have pre: "startswith ''already_proxied_traefik'' ''already_proxied''" by code_simp
  have rp': "is_reverse_proxy custom_router = Inr True" by code_simp
  from candidacy_iff [of api_container "''exposed_directly''"] rp http
  have 1: "\<exists>reason. is_candidate_for_migration api_container ''exposed_directly''
             = Inr (True, reason)"
    by simp
  from candidacy_iff [of api_container "''already_proxied_traefik''"] pre
  have 2: "is_candidate_for_migration api_container ''already_proxied_traefik''
        \<noteq> Inr (True, ''HTTP service exposed directly - good migration candidate'')"
    by blast
  from candidacy_iff [of custom_router "''exposed_directly''"] rp'
  have 3: "is_candidate_for_migration custom_router ''exposed_directly''
        = Inr (False, ''Container is a reverse proxy'')"
    by blast
  from 1 2 3 pre rp' show ?thesis by blast
qed

subsection \<open>Rule 1 of the classifier\<close>

text \<open>
  Claim C2. A container whose \<^verbatim>\<open>traefik.enable\<close> label has a value that lowers to
  \<^verbatim>\<open>true\<close> has a non-empty Traefik-label subset and is classified
  \<^verbatim>\<open>already_proxied_traefik\<close>, whatever its networks are. The label keys are unique, as
  in any parsed JSON object, and \<^verbatim>\<open>NetworkSettings\<close> is not null.
\<close>

theorem traefik_enable_true:
  assumes "NetworkSettings c \<noteq> JNull"
    and "distinct (dict_keys (or_empty (Labels (Config c))))"
    and "map_of (or_empty (Labels (Config c))) ''traefik.enable'' = Some v"
    and "lower v = ''true''"
  shows "traefik_labels (detect_proxy_signals c) \<noteq> []
         \<and> classify_container c = Inr ''already_proxied_traefik''"
proof -
  from assms(1) obtain pub nets
    where p: "get_published_ports c = Inr pub" and n: "container_networks c = Inr nets"
    using published_returns networks_returns by blast
  have "(''traefik.enable'', v) \<in> set (or_empty (Labels (Config c)))"
    using assms(3) by (rule map_of_SomeD)
  moreover have "startswith ''traefik.enable'' ''traefik.''"
    by (simp add: startswith_def)
  ultimately have ne: "traefik_labels (detect_proxy_signals c) \<noteq> []"
    unfolding detect_traefik_nonempty by force
  have "dict_get (traefik_labels (detect_proxy_signals c)) ''traefik.enable'' [] = v"
    unfolding traefik_enable_value [OF assms(2)] using assms(3) by (simp add: dict_get_def)
  with ne assms(4) show ?thesis
    by (simp add: classify_unfold [OF p n])
qed

theorem traefik_enable_true_witness:
  "NetworkSettings traefik_enabled \<noteq> JNull
   \<and> map_of (or_empty (Labels (Config traefik_enabled))) ''traefik.enable'' = Some ''True''
   \<and> (\<exists>nets. container_networks traefik_enabled = Inr nets \<and> \<not> is_in_proxy_network nets)
   \<and> classify_container traefik_enabled = Inr ''already_proxied_traefik''"
proof -
  have 1: "NetworkSettings traefik_enabled \<noteq> JNull" by code_simp
  have 2: "distinct (dict_keys (or_empty (Labels (Config traefik_enabled))))" by code_simp
  have 3: "map_of (or_empty (Labels (Config traefik_enabled))) ''traefik.enable'' = Some ''True''"
    by code_simp
  have 4: "lower ''True'' = ''true''" by code_simp
  have 5: "container_networks traefik_enabled = Inr [''backend'']" by code_simp
  have 6: "\<not> is_in_proxy_network [''backend'']" by code_simp
  from traefik_enable_true [OF 1 2 3 4] 1 3 5 6 show ?thesis by blast
qed

subsection \<open>The fallthrough of the classifier\<close>

text \<open>
  Claim C3. A container with a non-empty Traefik-label subset whose \<^verbatim>\<open>traefik.enable\<close>
  value does not lower to \<^verbatim>\<open>true\<close> (the value \<^verbatim>\<open>false\<close>, any other value, or no such
  label), on no proxy-pattern network, with empty nginx-proxy and Caddy subsets, is
  classified \<^verbatim>\<open>unknown_needs_review\<close> and not \<^verbatim>\<open>already_proxied_traefik\<close>, whatever its
  published ports are. The label keys are unique.
\<close>

theorem traefik_not_enabled:
  assumes "get_published_ports c = Inr pub"
    and "container_networks c = Inr nets"
    and "distinct (dict_keys (or_empty (Labels (Config c))))"
    and "traefik_labels (detect_proxy_signals c) \<noteq> []"
    and "lower (dict_get (or_empty (Labels (Config c))) ''traefik.enable'' []) \<noteq> ''true''"
    and "\<not> is_in_proxy_network nets"
    and "nginx_proxy_env (detect_proxy_signals c) = []"
    and "caddy_labels (detect_proxy_signals c) = []"
  shows "classify_container c = Inr ''unknown_needs_review''
         \<and> classify_container c \<noteq> Inr ''already_proxied_traefik''"
proof -
  have "has_proxy_signals (detect_proxy_signals c)"
    using assms(4) by (simp add: detect_has)
  then show ?thesis
    using assms(4-8)
    by (simp add: classify_unfold [OF assms(1,2)] traefik_enable_value [OF assms(3)])
qed

theorem traefik_not_enabled_witness:
  "classify_container (traefik_disabled [(''8080/tcp'', Some [sample_binding ''8080''])])
     = Inr ''unknown_needs_review''
   \<and> get_published_ports (traefik_disabled [(''8080/tcp'', Some [sample_binding ''8080''])])
     = Inr [(''8080/tcp'', [''0.0.0.0:8080''])]
   \<and> classify_container (traefik_disabled []) = Inr ''unknown_needs_review''
   \<and> get_published_ports (traefik_disabled []) = Inr []"
proof -
  let ?p = "[(''8080/tcp'', Some [sample_binding ''8080''])]"
  have p1: "get_published_ports (traefik_disabled ?p) = Inr [(''8080/tcp'', [''0.0.0.0:8080''])]"
    by code_simp
  have n1: "container_networks (traefik_disabled ?p) = Inr [''backend'']" by code_simp
  have d1: "distinct (dict_keys (or_empty (Labels (Config (traefik_disabled ?p)))))"
    by code_simp
  have t1: "traefik_labels (detect_proxy_signals (traefik_disabled ?p)) \<noteq> []" by code_simp
  have e1: "lower (dict_get (or_empty (Labels (Config (traefik_disabled ?p))))
              ''traefik.enable'' []) \<noteq> ''true''"
    by code_simp
  have nn: "\<not> is_in_proxy_network [''backend'']" by code_simp
  have g1: "nginx_proxy_env (detect_proxy_signals (traefik_disabled ?p)) = []" by code_simp
  have c1: "caddy_labels (detect_proxy_signals (traefik_disabled ?p)) = []" by code_simp
  have p2: "get_published_ports (traefik_disabled []) = Inr []" by code_simp
  have n2: "container_networks (traefik_disabled []) = Inr [''backend'']" by code_simp
  have d2: "distinct (dict_keys (or_empty (Labels (Config (traefik_disabled [])))))"
    by code_simp
  have t2: "traefik_labels (detect_proxy_signals (traefik_disabled [])) \<noteq> []" by code_simp
  have e2: "lower (dict_get (or_empty (Labels (Config (traefik_disabled []))))
              ''traefik.enable'' []) \<noteq> ''true''"
    by code_simp
  have g2: "nginx_proxy_env (detect_proxy_signals (traefik_disabled [])) = []" by code_simp
  have c2: "caddy_labels (detect_proxy_signals (traefik_disabled [])) = []" by code_simp
  from traefik_not_enabled [OF p1 n1 d1 t1 e1 nn g1 c1]
       traefik_not_enabled [OF p2 n2 d2 t2 e2 nn g2 c2] p1 p2
  show ?thesis by blast
qed

text \<open>
  Claim C4. \<^verbatim>\<open>unknown_needs_review\<close> is returned only when the aggregate flag is set.
  With the three subsets empty the result is \<^verbatim>\<open>exposed_directly\<close> when a port is
  published and \<^verbatim>\<open>internal_only\<close> when none is. With the flag set, no published port,
  and neither rule 1 nor rule 2 matching, the result is \<^verbatim>\<open>unknown_needs_review\<close>, not
  \<^verbatim>\<open>internal_only\<close>.
\<close>

theorem unknown_only_with_signals:
  assumes "get_published_ports c = Inr pub" and "container_networks c = Inr nets"
  shows "(classify_container c = Inr ''unknown_needs_review''
            \<longrightarrow> has_proxy_signals (detect_proxy_signals c))
       \<and> (traefik_labels (detect_proxy_signals c) = []
            \<and> nginx_proxy_env (detect_proxy_signals c) = []
            \<and> caddy_labels (detect_proxy_signals c) = []
          \<longrightarrow> classify_container c
                = Inr (if pub \<noteq> [] then ''exposed_directly'' else ''internal_only''))
       \<and> (has_proxy_signals (detect_proxy_signals c) \<and> pub = []
            \<and> \<not> (traefik_labels (detect_proxy_signals c) \<noteq> []
                  \<and> (lower (dict_get (traefik_labels (detect_proxy_signals c))
                              ''traefik.enable'' []) = ''true''
                      \<or> is_in_proxy_network nets))
            \<and> \<not> (nginx_proxy_env (detect_proxy_signals c) \<noteq> []
                  \<or> caddy_labels (detect_proxy_signals c) \<noteq> [])
          \<longrightarrow> classify_container c = Inr ''unknown_needs_review'')"
  by (simp add: classify_unfold [OF assms] detect_has)

theorem unknown_only_with_signals_witness:
  "classify_container (traefik_disabled []) = Inr ''unknown_needs_review''
   \<and> has_proxy_signals (detect_proxy_signals (traefik_disabled []))
   \<and> get_published_ports (traefik_disabled []) = Inr []
   \<and> classify_container api_container = Inr ''exposed_directly''
   \<and> classify_container bare_container = Inr ''internal_only''"
proof -
  let ?s = "detect_proxy_signals (traefik_disabled [])"
  have p1: "get_published_ports (traefik_disabled []) = Inr []" by code_simp
  have n1: "container_networks (traefik_disabled []) = Inr [''backend'']" by code_simp
  have h1: "has_proxy_signals ?s" by code_simp
  have r1: "\<not> (traefik_labels ?s \<noteq> []
               \<and> (lower (dict_get (traefik_labels ?s) ''traefik.enable'' []) = ''true''
                   \<or> is_in_proxy_network [''backend'']))"
    by code_simp
  have r2: "\<not> (nginx_proxy_env ?s \<noteq> [] \<or> caddy_labels ?s \<noteq> [])" by code_simp
  have u: "classify_container (traefik_disabled []) = Inr ''unknown_needs_review''"
    using unknown_only_with_signals [OF p1 n1] h1 r1 r2 by blast
  have h1': "has_proxy_signals ?s"
    using unknown_only_with_signals [OF p1 n1] u by blast
  have p2: "get_published_ports api_container = Inr [(''8080/tcp'', [''0.0.0.0:8080''])]"
    by code_simp
  have n2: "container_networks api_container = Inr [''backend'']" by code_simp
  have e2: "traefik_labels (detect_proxy_signals api_container) = []
            \<and> nginx_proxy_env (detect_proxy_signals api_container) = []
            \<and> caddy_labels (detect_proxy_signals api_container) = []"
    by code_simp
  have a: "classify_container api_container = Inr ''exposed_directly''"
    using unknown_only_with_signals [OF p2 n2] e2 by simp
  have p3: "get_published_ports bare_container = Inr []" by code_simp
  have n3: "container_networks bare_container = Inr []" by code_simp
  have e3: "traefik_labels (detect_proxy_signals bare_container) = []
            \<and> nginx_proxy_env (detect_proxy_signals bare_container) = []
            \<and> caddy_labels (detect_proxy_signals bare_container) = []"
    by code_simp
  have b: "classify_container bare_container = Inr ''internal_only''"
    using unknown_only_with_signals [OF p3 n3] e3 by simp
  from u h1' p1 a b show ?thesis by blast
qed

subsection \<open>The proxy detector\<close>

lemma keys_dict_set: "set (dict_keys (dict_set k v d)) = insert k (set (dict_keys d))"
  by (simp add: dict_keys_def dict_set_def dom_update)

lemma published_keys:
  "set (dict_keys (fold published_step pc d)) =
     set (dict_keys d) \<union> {p. \<exists>bs. (p, Some bs) \<in> set pc \<and> bs \<noteq> []}"
proof (induction pc arbitrary: d)
  case Nil
  then show ?case by simp
next
  case (Cons pb pc)
  have k: "set (dict_keys (published_step pb d)) =
        set (dict_keys d) \<union> {p. \<exists>bs. pb = (p, Some bs) \<and> bs \<noteq> []}"
    by (cases pb) (auto simp: published_step_def keys_dict_set split: option.splits)
  show ?case
    unfolding fold_Cons comp_apply Cons.IH k by auto
qed

lemma bound_port_published:
  assumes "ports_config c = Inr pc" and "bound_port p pc"
  shows "\<exists>pub. get_published_ports c = Inr pub \<and> p \<in> set (dict_keys pub)"
proof -
  from assms(2) obtain bs where "map_of pc p = Some (Some bs)" and "bs \<noteq> []"
    by (auto simp: bound_port_def split: option.splits)
  then have "(p, Some bs) \<in> set pc" and "bs \<noteq> []"
    by (auto dest: map_of_SomeD)
  then have "p \<in> set (dict_keys (fold published_step pc []))"
    unfolding published_keys by blast
  with assms(1) show ?thesis
    by (simp add: get_published_ports_def)
qed

text \<open>
  Claim C5. When the image matches no entry of the known-proxy list, the detector answers
  \<open>True\<close> exactly when 80/tcp and 443/tcp both have a binding and the image or some
  label key contains \<^verbatim>\<open>traefik\<close>; both ports are then among the published ports. A
  container that binds 80 and 443 with no Traefik indication is not detected.
\<close>

theorem port_heuristic_gated:
  assumes "\<not> list_ex (\<lambda>proxy_image. str_in proxy_image (lower (Image (Config c))))
               REVERSE_PROXY_IMAGES"
  shows "(is_reverse_proxy c = Inr True
            \<longleftrightarrow> (\<exists>pc. ports_config c = Inr pc
                      \<and> bound_port ''80/tcp'' pc \<and> bound_port ''443/tcp'' pc)
                \<and> (str_in ''traefik'' (lower (Image (Config c)))
                    \<or> list_ex (\<lambda>k. str_in ''traefik'' (lower k))
                         (dict_keys (or_empty (Labels (Config c))))))
       \<and> (is_reverse_proxy c = Inr True
            \<longrightarrow> (\<exists>pub. get_published_ports c = Inr pub
                      \<and> ''80/tcp'' \<in> set (dict_keys pub)
                      \<and> ''443/tcp'' \<in> set (dict_keys pub)))
       \<and> (\<not> str_in ''traefik'' (lower (Image (Config c)))
            \<and> \<not> list_ex (\<lambda>k. str_in ''traefik'' (lower k))
                   (dict_keys (or_empty (Labels (Config c))))
          \<longrightarrow> is_reverse_proxy c \<noteq> Inr True
              \<and> (NetworkSettings c \<noteq> JNull \<longrightarrow> is_reverse_proxy c = Inr False))"
proof -
  have iff: "is_reverse_proxy c = Inr True
            \<longleftrightarrow> (\<exists>pc. ports_config c = Inr pc
                      \<and> bound_port ''80/tcp'' pc \<and> bound_port ''443/tcp'' pc)
                \<and> (str_in ''traefik'' (lower (Image (Config c)))
                    \<or> list_ex (\<lambda>k. str_in ''traefik'' (lower k))
                         (dict_keys (or_empty (Labels (Config c)))))"
    using assms
    by (cases "ports_config c") (auto simp: is_reverse_proxy_def Let_def)
  have pub: "is_reverse_proxy c = Inr True
            \<longrightarrow> (\<exists>pub. get_published_ports c = Inr pub
                      \<and> ''80/tcp'' \<in> set (dict_keys pub)
                      \<and> ''443/tcp'' \<in> set (dict_keys pub))"
  proof
    assume "is_reverse_proxy c = Inr True"
    with iff obtain pc where pc: "ports_config c = Inr pc"
      and b80: "bound_port ''80/tcp'' pc" and b443: "bound_port ''443/tcp'' pc"
      by blast
    from bound_port_published [OF pc b80] bound_port_published [OF pc b443]
    show "\<exists>pub. get_published_ports c = Inr pub
            \<and> ''80/tcp'' \<in> set (dict_keys pub) \<and> ''443/tcp'' \<in> set (dict_keys pub)"
      by auto
  qed
  have no: "\<not> str_in ''traefik'' (lower (Image (Config c)))
            \<and> \<not> list_ex (\<lambda>k. str_in ''traefik'' (lower k))
                   (dict_keys (or_empty (Labels (Config c))))
          \<longrightarrow> is_reverse_proxy c \<noteq> Inr True
              \<and> (NetworkSettings c \<noteq> JNull \<longrightarrow> is_reverse_proxy c = Inr False)"
    using iff reverse_proxy_returns [of c] by auto
  from iff pub no show ?thesis by blast
qed

theorem port_heuristic_gated_witness:
  "is_reverse_proxy custom_router = Inr True
   \<and> get_published_ports custom_router
       = Inr [(''443/tcp'', [''0.0.0.0:443'']), (''80/tcp'', [''0.0.0.0:80''])]
   \<and> get_published_ports plain_web
       = Inr [(''443/tcp'', [''0.0.0.0:443'']), (''80/tcp'', [''0.0.0.0:80''])]
   \<and> is_reverse_proxy plain_web = Inr False"
proof -
  have i1: "\<not> list_ex (\<lambda>proxy_image. str_in proxy_image (lower (Image (Config custom_router))))
               REVERSE_PROXY_IMAGES"
    by code_simp
  have pc1: "ports_config custom_router
       = Inr [(''443/tcp'', Some [sample_binding ''443'']),
              (''80/tcp'', Some [sample_binding ''80''])]"
    by code_simp
  have b1: "bound_port ''80/tcp'' [(''443/tcp'', Some [sample_binding ''443'']),
              (''80/tcp'', Some [sample_binding ''80''])]
          \<and> bound_port ''443/tcp'' [(''443/tcp'', Some [sample_binding ''443'']),
              (''80/tcp'', Some [sample_binding ''80''])]"
    by code_simp
  have l1: "list_ex (\<lambda>k. str_in ''traefik'' (lower k))
              (dict_keys (or_empty (Labels (Config custom_router))))"
    by code_simp
  have t: "is_reverse_proxy custom_router = Inr True"
    using port_heuristic_gated [OF i1] pc1 b1 l1 by blast
  have p1: "get_published_ports custom_router
       = Inr [(''443/tcp'', [''0.0.0.0:443'']), (''80/tcp'', [''0.0.0.0:80''])]"
    by code_simp
  have i2: "\<not> list_ex (\<lambda>proxy_image. str_in proxy_image (lower (Image (Config plain_web))))
               REVERSE_PROXY_IMAGES"
    by code_simp
  have n2: "\<not> str_in ''traefik'' (lower (Image (Config plain_web)))
            \<and> \<not> list_ex (\<lambda>k. str_in ''traefik'' (lower k))
                   (dict_keys (or_empty (Labels (Config plain_web))))"
    by code_simp
  have ns2: "NetworkSettings plain_web \<noteq> JNull" by code_simp
  have f: "is_reverse_proxy plain_web = Inr False"
    using port_heuristic_gated [OF i2] n2 ns2 by blast
  have p2: "get_published_ports plain_web
       = Inr [(''443/tcp'', [''0.0.0.0:443'']), (''80/tcp'', [''0.0.0.0:80''])]"
    by code_simp
  from t p1 p2 f show ?thesis by blast
qed

subsection \<open>The loop of \<^verbatim>\<open>main\<close>\<close>

lemma classify_returns:
  "NetworkSettings c \<noteq> JNull \<Longrightarrow> \<exists>cls. classify_container c = Inr cls"
  using published_returns [of c] networks_returns [of c]
  by (auto simp: classify_unfold)

lemma candidate_returns:
  "NetworkSettings c \<noteq> JNull \<Longrightarrow> \<exists>d. is_candidate_for_migration c cls = Inr d"
proof -
  assume "NetworkSettings c \<noteq> JNull"
  then obtain b where "is_reverse_proxy c = Inr b"
    using reverse_proxy_returns by blast
  then show ?thesis
    by (simp add: is_candidate_for_migration_def) blast
qed

lemma main_step_returns:
  assumes "NetworkSettings c \<noteq> JNull"
  shows "\<exists>acc'. main_step c acc = Inr acc'"
proof -
  obtain nets where 1: "container_networks c = Inr nets"
    using assms networks_returns by blast
  obtain pub where 2: "get_published_ports c = Inr pub"
    using assms published_returns by blast
  obtain rp where 3: "is_reverse_proxy c = Inr rp"
    using assms reverse_proxy_returns by blast
  obtain cls where 4: "classify_container c = Inr cls"
    using assms classify_returns by blast
  obtain d where 5: "is_candidate_for_migration c cls = Inr d"
    using assms candidate_returns by blast
  show ?thesis
    by (simp add: main_step_def 1 2 3 4 5)
qed

lemma main_step_cases:
  assumes "main_step c acc = Inr acc'"
  shows "(is_reverse_proxy c = Inr True
            \<and> (\<exists>e. rp_entry_for c e \<and> acc' = (fst acc @ [e], snd acc)))
       \<or> (is_reverse_proxy c = Inr False
            \<and> (\<exists>e. analysis_entry_for c e \<and> acc' = (fst acc, snd acc @ [e])))"
proof -
  from assms obtain nets where n: "container_networks c = Inr nets"
    by (cases "container_networks c") (simp_all add: main_step_def)
  from assms n obtain rp where rp: "is_reverse_proxy c = Inr rp"
    by (cases "is_reverse_proxy c") (simp_all add: main_step_def)
  from assms n rp obtain pub where p: "get_published_ports c = Inr pub"
    by (cases "get_published_ports c") (simp_all add: main_step_def split: if_splits)
  show ?thesis
  proof (cases rp)
    case True
    with assms n rp p show ?thesis
      by (auto simp: main_step_def rp_entry_for_def)
  next
    case False
    from assms n rp p False obtain cls where c: "classify_container c = Inr cls"
      by (cases "classify_container c") (simp_all add: main_step_def)
    from assms n rp p False c obtain d where d: "is_candidate_for_migration c cls = Inr d"
      by (cases "is_candidate_for_migration c cls") (simp_all add: main_step_def)
    from assms n rp p False c d show ?thesis
      by (auto simp: main_step_def analysis_entry_for_def)
  qed
qed

lemma main_loop_returns:
  "\<forall>c\<in>set cs. NetworkSettings c \<noteq> JNull \<Longrightarrow> \<exists>r. main_loop cs acc = Inr r"
proof (induction cs arbitrary: acc)
  case Nil
  then show ?case by simp
next
  case (Cons c cs)
  then obtain acc' where "main_step c acc = Inr acc'"
    using main_step_returns [of c acc] by auto
  with Cons show ?case by simp
qed

lemma main_loop_partition:
  "main_loop cs acc = Inr r \<Longrightarrow>
   \<exists>rps inv. r = (fst acc @ rps, snd acc @ inv)
     \<and> list_all2 rp_entry_for (filter (\<lambda>c. is_reverse_proxy c = Inr True) cs) rps
     \<and> list_all2 analysis_entry_for (filter (\<lambda>c. is_reverse_proxy c = Inr False) cs) inv
     \<and> length rps + length inv = length cs"
proof (induction cs arbitrary: acc r)
  case Nil
  then show ?case by (cases r) auto
next
  case (Cons c cs)
  from Cons.prems obtain acc' where step: "main_step c acc = Inr acc'"
    and rest: "main_loop cs acc' = Inr r"
    by (auto split: sum.splits)
  from Cons.IH [OF rest] obtain rps inv where r: "r = (fst acc' @ rps, snd acc' @ inv)"
    and a: "list_all2 rp_entry_for (filter (\<lambda>c. is_reverse_proxy c = Inr True) cs) rps"
    and b: "list_all2 analysis_entry_for (filter (\<lambda>c. is_reverse_proxy c = Inr False) cs) inv"
    and l: "length rps + length inv = length cs"
    by blast
  from main_step_cases [OF step] show ?case
  proof (elim disjE conjE exE)
    fix e
    assume "is_reverse_proxy c = Inr True" "rp_entry_for c e" "acc' = (fst acc @ [e], snd acc)"
    with r a b l show ?thesis
      by (intro exI [of _ "e # rps"] exI [of _ inv]) simp
  next
    fix e
    assume "is_reverse_proxy c = Inr False" "analysis_entry_for c e"
      "acc' = (fst acc, snd acc @ [e])"
    with r a b l show ?thesis
      by (intro exI [of _ rps] exI [of _ "e # inv"]) simp
  qed
qed

text \<open>
  Claim C6. For every snapshot of well-formed records the loop returns two lists: the
  reverse-proxy list holds, in input order, one entry for each container the detector
  accepts, and the analysis list holds one entry for each container it rejects. Every
  container lands in exactly one of the two. A reverse-proxy entry has no classification
  and no candidacy field, and every analysis entry carries the classification and the
  decision of a container the detector rejected.
\<close>

theorem reverse_proxies_partitioned:
  assumes "\<forall>c\<in>set cs. NetworkSettings c \<noteq> JNull"
  shows "\<exists>rps inv. main_loop cs ([], []) = Inr (rps, inv)
     \<and> list_all2 rp_entry_for (filter (\<lambda>c. is_reverse_proxy c = Inr True) cs) rps
     \<and> list_all2 analysis_entry_for (filter (\<lambda>c. is_reverse_proxy c = Inr False) cs) inv
     \<and> length rps + length inv = length cs
     \<and> (\<forall>c\<in>set cs. is_reverse_proxy c = Inr True \<or> is_reverse_proxy c = Inr False)"
proof -
  from main_loop_returns [OF assms] obtain r where r: "main_loop cs ([], []) = Inr r"
    by blast
  from main_loop_partition [OF r] obtain rps inv where "r = (rps, inv)"
    and "list_all2 rp_entry_for (filter (\<lambda>c. is_reverse_proxy c = Inr True) cs) rps"
    and "list_all2 analysis_entry_for (filter (\<lambda>c. is_reverse_proxy c = Inr False) cs) inv"
    and "length rps + length inv = length cs"
    by auto
  moreover have "\<forall>c\<in>set cs. is_reverse_proxy c = Inr True \<or> is_reverse_proxy c = Inr False"
    using assms reverse_proxy_returns by fastforce
  ultimately show ?thesis using r by blast
qed

theorem reverse_proxies_partitioned_witness:
  "NetworkSettings custom_router \<noteq> JNull
   \<and> NetworkSettings api_container \<noteq> JNull
   \<and> NetworkSettings bare_container \<noteq> JNull
   \<and> (\<exists>rps inv.
         main_loop [custom_router, api_container, bare_container] ([], []) = Inr (rps, inv)
         \<and> list_all2 rp_entry_for [custom_router] rps
         \<and> list_all2 analysis_entry_for [api_container, bare_container] inv
         \<and> length rps = 1 \<and> length inv = 2)"
proof -
  let ?cs = "[custom_router, api_container, bare_container]"
  have h: "\<forall>c\<in>set ?cs. NetworkSettings c \<noteq> JNull" by code_simp
  have r1: "is_reverse_proxy custom_router = Inr True" by code_simp
  have r2: "is_reverse_proxy api_container = Inr False" by code_simp
  have r3: "is_reverse_proxy bare_container = Inr False" by code_simp
  have t: "filter (\<lambda>c. is_reverse_proxy c = Inr True) ?cs = [custom_router]"
    by (simp add: r1 r2 r3)
  have f: "filter (\<lambda>c. is_reverse_proxy c = Inr False) ?cs = [api_container, bare_container]"
    by (simp add: r1 r2 r3)
  from reverse_proxies_partitioned [OF h] obtain rps inv
    where m: "main_loop ?cs ([], []) = Inr (rps, inv)"
      and a: "list_all2 rp_entry_for [custom_router] rps"
      and b: "list_all2 analysis_entry_for [api_container, bare_container] inv"
    unfolding t f by blast
  from a have "length rps = 1" by (auto dest: list_all2_lengthD)
  moreover from b have "length inv = 2" by (auto dest: list_all2_lengthD)
  ultimately show ?thesis using h m a b by auto
qed

subsection \<open>Environment parsing\<close>

lemma find_snoc:
  "find P (xs @ [x]) = (case find P xs of None \<Rightarrow> (if P x then Some x else None) | Some y \<Rightarrow> Some y)"
  by (induction xs) auto

lemma map_of_parse_env_step:
  "map_of (parse_env_step e d) k =
     (if CHR ''='' \<in> set e \<and> split_head CHR ''='' e = k then Some (split_rest CHR ''='' e)
      else map_of d k)"
  by (simp add: parse_env_step_def map_of_dict_set)

lemma parse_fold_lookup:
  "map_of (fold parse_env_step es d) k =
     (case find (\<lambda>e. CHR ''='' \<in> set e \<and> split_head CHR ''='' e = k) (rev es) of
        None \<Rightarrow> map_of d k
      | Some e \<Rightarrow> Some (split_rest CHR ''='' e))"
proof (induction es arbitrary: d)
  case Nil
  then show ?case by simp
next
  case (Cons e es)
  show ?case
    by (simp add: Cons.IH find_snoc map_of_parse_env_step split: option.splits)
qed

lemma find_append_cases:
  "find P (xs @ ys) = (case find P xs of None \<Rightarrow> find P ys | Some x \<Rightarrow> Some x)"
  by (induction xs) auto

lemma parse_fold_distinct:
  "distinct (dict_keys d) \<Longrightarrow> distinct (dict_keys (fold parse_env_step es d))"
  by (induction es arbitrary: d)
     (auto simp: parse_env_step_def dict_keys_def dict_set_def distinct_update)

lemma split_first:
  "sep \<in> set s \<Longrightarrow> split_head sep s @ sep # split_rest sep s = s"
  by (induction s) (auto simp: split_head_def split_rest_def)

lemma split_head_no_sep: "sep \<notin> set (split_head sep s)"
  by (induction s) (auto simp: split_head_def)

text \<open>
  Claim C8. An entry without \<^verbatim>\<open>=\<close> changes nothing. An entry with one splits at its
  first \<^verbatim>\<open>=\<close> into key and value. The parsed mapping sends a key to the value of the
  last entry that has this key, and to nothing when no entry has it; its keys are unique.
\<close>

theorem parse_env_last_wins:
  "(CHR ''='' \<notin> set e \<longrightarrow> parse_env (xs @ e # ys) = parse_env (xs @ ys))
   \<and> (CHR ''='' \<in> set e
        \<longrightarrow> split_head CHR ''='' e @ CHR ''='' # split_rest CHR ''='' e = e
            \<and> CHR ''='' \<notin> set (split_head CHR ''='' e))
   \<and> map_of (parse_env es) k =
        (case find (\<lambda>x. CHR ''='' \<in> set x \<and> split_head CHR ''='' x = k) (rev es) of
           None \<Rightarrow> None
         | Some x \<Rightarrow> Some (split_rest CHR ''='' x))
   \<and> (CHR ''='' \<in> set e
        \<and> (\<forall>x\<in>set ys. CHR ''='' \<in> set x
                         \<longrightarrow> split_head CHR ''='' x \<noteq> split_head CHR ''='' e)
        \<longrightarrow> map_of (parse_env (xs @ e # ys)) (split_head CHR ''='' e)
              = Some (split_rest CHR ''='' e))
   \<and> distinct (dict_keys (parse_env es))"
proof -
  have skip: "CHR ''='' \<notin> set e \<longrightarrow> parse_env (xs @ e # ys) = parse_env (xs @ ys)"
    by (simp add: parse_env_def parse_env_step_def)
  have split: "CHR ''='' \<in> set e
        \<longrightarrow> split_head CHR ''='' e @ CHR ''='' # split_rest CHR ''='' e = e
            \<and> CHR ''='' \<notin> set (split_head CHR ''='' e)"
    by (simp add: split_first split_head_no_sep)
  have lookup: "map_of (parse_env zs) k' =
        (case find (\<lambda>x. CHR ''='' \<in> set x \<and> split_head CHR ''='' x = k') (rev zs) of
           None \<Rightarrow> None
         | Some x \<Rightarrow> Some (split_rest CHR ''='' x))" for zs k'
    by (simp add: parse_env_def parse_fold_lookup split: option.splits)
  have last: "CHR ''='' \<in> set e
        \<and> (\<forall>x\<in>set ys. CHR ''='' \<in> set x
                         \<longrightarrow> split_head CHR ''='' x \<noteq> split_head CHR ''='' e)
        \<longrightarrow> map_of (parse_env (xs @ e # ys)) (split_head CHR ''='' e)
              = Some (split_rest CHR ''='' e)"
  proof
    assume a: "CHR ''='' \<in> set e
        \<and> (\<forall>x\<in>set ys. CHR ''='' \<in> set x
                         \<longrightarrow> split_head CHR ''='' x \<noteq> split_head CHR ''='' e)"
    then have "find (\<lambda>x. CHR ''='' \<in> set x \<and> split_head CHR ''='' x = split_head CHR ''='' e)
                 (rev ys) = None"
      by (auto simp: find_None_iff)
    with a show "map_of (parse_env (xs @ e # ys)) (split_head CHR ''='' e)
              = Some (split_rest CHR ''='' e)"
      by (simp add: lookup find_append_cases)
  qed
  have keys: "distinct (dict_keys (parse_env es))"
    unfolding parse_env_def by (rule parse_fold_distinct) (simp add: dict_keys_def)
  from skip split lookup [of es k] last keys show ?thesis by blast
qed

theorem parse_env_last_wins_witness:
  "parse_env [''VIRTUAL_HOST=a.local'', ''MALFORMED'', ''VIRTUAL_HOST=b.local=x'']
     = parse_env [''VIRTUAL_HOST=a.local'', ''VIRTUAL_HOST=b.local=x'']
   \<and> split_head CHR ''='' ''VIRTUAL_HOST=b.local=x'' = ''VIRTUAL_HOST''
   \<and> split_rest CHR ''='' ''VIRTUAL_HOST=b.local=x'' = ''b.local=x''
   \<and> map_of (parse_env [''VIRTUAL_HOST=b.local=x'', ''VIRTUAL_HOST=a.local'', ''MALFORMED''])
         ''VIRTUAL_HOST'' = Some ''a.local''"
proof -
  have 1: "CHR ''='' \<notin> set ''MALFORMED''" by simp
  have 2: "CHR ''='' \<in> set ''VIRTUAL_HOST=a.local''" by simp
  have 3: "\<forall>x\<in>set [''MALFORMED'']. CHR ''='' \<in> set x
             \<longrightarrow> split_head CHR ''='' x \<noteq> split_head CHR ''='' ''VIRTUAL_HOST=a.local''"
    by simp
  have 4: "split_head CHR ''='' ''VIRTUAL_HOST=a.local'' = ''VIRTUAL_HOST''" by code_simp
  have 5: "split_rest CHR ''='' ''VIRTUAL_HOST=a.local'' = ''a.local''" by code_simp
  have 6: "split_head CHR ''='' ''VIRTUAL_HOST=b.local=x'' = ''VIRTUAL_HOST''" by code_simp
  have 7: "split_rest CHR ''='' ''VIRTUAL_HOST=b.local=x'' = ''b.local=x''" by code_simp
  have a: "parse_env ([''VIRTUAL_HOST=a.local''] @ ''MALFORMED'' # [''VIRTUAL_HOST=b.local=x''])
     = parse_env ([''VIRTUAL_HOST=a.local''] @ [''VIRTUAL_HOST=b.local=x''])"
    using parse_env_last_wins [of "''MALFORMED''" "[''VIRTUAL_HOST=a.local'']"
        "[''VIRTUAL_HOST=b.local=x'']"] 1
    by blast
  have b: "map_of (parse_env ([''VIRTUAL_HOST=b.local=x''] @ ''VIRTUAL_HOST=a.local''
                     # [''MALFORMED'']))
             (split_head CHR ''='' ''VIRTUAL_HOST=a.local'')
           = Some (split_rest CHR ''='' ''VIRTUAL_HOST=a.local'')"
    using parse_env_last_wins [of "''VIRTUAL_HOST=a.local''" "[''VIRTUAL_HOST=b.local=x'']"
        "[''MALFORMED'']"] 2 3
    by blast
  from a b 6 7 show ?thesis unfolding 4 5 by simp
qed

subsection \<open>The recommendation for an API container\<close>

lemma api_image_no_proxy:
  "\<not> list_ex (\<lambda>proxy_image. str_in proxy_image (lower ''myapp/api:1.0'')) REVERSE_PROXY_IMAGES"
  by code_simp

lemma api_image_web:
  "list_ex (\<lambda>pattern. str_in pattern (lower ''myapp/api:1.0'')) web_patterns"
  by code_simp

lemma routing_port_first:
  assumes "\<forall>q\<in>set pre. port_num q \<notin> set HTTP_SERVICE_PORTS"
    and "port_num p \<in> set HTTP_SERVICE_PORTS"
  shows "routing_port (pre @ p # rest) = port_num p"
proof -
  have "find (\<lambda>p. port_num p \<in> set HTTP_SERVICE_PORTS) pre = None"
    using assms(1) by (simp add: find_None_iff)
  with assms(2) show ?thesis
    by (simp add: routing_port_def find_append_cases)
qed

lemma port_label_lookup:
  "map_of (generate_recommended_labels c)
     (''traefik.http.services.''
        @ replace_char CHR ''.'' CHR ''_'' (replace_char CHR ''-'' CHR ''_'' (lstrip_slash (Name c)))
        @ ''.loadbalancer.server.port'')
   = Some (routing_port (get_exposed_ports c))"
  by (simp add: generate_recommended_labels_def Let_def map_of_dict_set)

lemma ports_of_published:
  "get_published_ports c = Inr pub \<Longrightarrow> \<exists>pc. ports_config c = Inr pc"
  by (cases "ports_config c") (simp_all add: get_published_ports_def)

text \<open>
  Claim C7, amended. A container with image \<^verbatim>\<open>myapp/api:1.0\<close>, 8080/tcp as its only
  published port, no proxy signals, and an exposed-port list whose first entry with an
  HTTP port number is 8080, is classified \<^verbatim>\<open>exposed_directly\<close>, is an HTTP service and
  a candidate; the recommended load-balancer port is \<^verbatim>\<open>8080\<close> and the recommended
  hostname list is the name without leading slashes followed by \<^verbatim>\<open>.local\<close>.
\<close>

theorem api_recommendation:
  assumes "Image (Config c) = ''myapp/api:1.0''"
    and "get_published_ports c = Inr pub"
    and "dict_keys pub = [''8080/tcp'']"
    and "\<not> has_proxy_signals (detect_proxy_signals c)"
    and "get_exposed_ports c = pre @ p # rest"
    and "\<forall>q\<in>set pre. port_num q \<notin> set HTTP_SERVICE_PORTS"
    and "port_num p = ''8080''"
  shows "classify_container c = Inr ''exposed_directly''
    \<and> is_http_service c
    \<and> is_candidate_for_migration c ''exposed_directly''
        = Inr (True, ''HTTP service exposed directly - good migration candidate'')
    \<and> map_of (generate_recommended_labels c)
         (''traefik.http.services.''
            @ replace_char CHR ''.'' CHR ''_''
                (replace_char CHR ''-'' CHR ''_'' (lstrip_slash (Name c)))
            @ ''.loadbalancer.server.port'')
        = Some ''8080''
    \<and> (\<exists>e. main_step c acc = Inr (fst acc, snd acc @ [e])
           \<and> classification e = ''exposed_directly''
           \<and> candidate_for_migration e
           \<and> recommended_labels e = generate_recommended_labels c
           \<and> recommended_hostnames e = [lstrip_slash (Name c) @ ''.local''])"
proof -
  from assms(2) obtain nets where nets: "container_networks c = Inr nets"
    using networks_of_published by blast
  from assms(2) obtain pc where pc: "ports_config c = Inr pc"
    using ports_of_published by blast
  have ne: "pub \<noteq> []"
    using assms(3) by (auto simp: dict_keys_def)
  have cls: "classify_container c = Inr ''exposed_directly''"
    using assms(4) ne by (simp add: classify_unfold [OF assms(2) nets] detect_has)
  have "\<not> bound_port ''80/tcp'' pc"
  proof
    assume "bound_port ''80/tcp'' pc"
    from bound_port_published [OF pc this] assms(2,3) show False by simp
  qed
  then have rp: "is_reverse_proxy c = Inr False"
    by (simp add: is_reverse_proxy_def Let_def assms(1) api_image_no_proxy pc)
  have http: "is_http_service c"
    by (simp add: is_http_service_def Let_def assms(1) api_image_web)
  have cand: "is_candidate_for_migration c ''exposed_directly''
        = Inr (True, ''HTTP service exposed directly - good migration candidate'')"
    by (simp add: is_candidate_for_migration_def rp http startswith_def)
  have "port_num p \<in> set HTTP_SERVICE_PORTS"
    by (simp add: assms(7) HTTP_SERVICE_PORTS_def)
  then have "routing_port (get_exposed_ports c) = ''8080''"
    using routing_port_first [OF assms(6)] assms(5,7) by simp
  then have port: "map_of (generate_recommended_labels c)
         (''traefik.http.services.''
            @ replace_char CHR ''.'' CHR ''_''
                (replace_char CHR ''-'' CHR ''_'' (lstrip_slash (Name c)))
            @ ''.loadbalancer.server.port'')
        = Some ''8080''"
    by (simp only: port_label_lookup)
  have step: "main_step c acc
        = Inr (fst acc, snd acc @ [make_entry c nets pub ''exposed_directly''
             (True, ''HTTP service exposed directly - good migration candidate'')])"
    by (simp add: main_step_def nets rp assms(2) cls cand)
  have "\<exists>e. main_step c acc = Inr (fst acc, snd acc @ [e])
           \<and> classification e = ''exposed_directly''
           \<and> candidate_for_migration e
           \<and> recommended_labels e = generate_recommended_labels c
           \<and> recommended_hostnames e = [lstrip_slash (Name c) @ ''.local'']"
    unfolding step by (simp add: make_entry_def)
  with cls http cand port show ?thesis by blast
qed

theorem api_recommendation_witness:
  "Image (Config api_container) = ''myapp/api:1.0''
   \<and> get_published_ports api_container = Inr [(''8080/tcp'', [''0.0.0.0:8080''])]
   \<and> \<not> has_proxy_signals (detect_proxy_signals api_container)
   \<and> get_exposed_ports api_container = [''8080/tcp'']
   \<and> classify_container api_container = Inr ''exposed_directly''
   \<and> is_http_service api_container
   \<and> map_of (generate_recommended_labels api_container)
        ''traefik.http.services.my_api.loadbalancer.server.port'' = Some ''8080''"
proof -
  have 1: "Image (Config api_container) = ''myapp/api:1.0''" by code_simp
  have 2: "get_published_ports api_container = Inr [(''8080/tcp'', [''0.0.0.0:8080''])]"
    by code_simp
  have 3: "dict_keys [(''8080/tcp'', [''0.0.0.0:8080''])] = [''8080/tcp'']" by code_simp
  have 4: "\<not> has_proxy_signals (detect_proxy_signals api_container)" by code_simp
  have 5: "get_exposed_ports api_container = [] @ ''8080/tcp'' # []" by code_simp
  have 6: "\<forall>q\<in>set []. port_num q \<notin> set HTTP_SERVICE_PORTS" by simp
  have 7: "port_num ''8080/tcp'' = ''8080''" by code_simp
  have 8: "''traefik.http.services.''
            @ replace_char CHR ''.'' CHR ''_''
                (replace_char CHR ''-'' CHR ''_'' (lstrip_slash (Name api_container)))
            @ ''.loadbalancer.server.port''
           = ''traefik.http.services.my_api.loadbalancer.server.port''"
    by code_simp
  from api_recommendation [OF 1 2 3 4 5 6 7, of "([], [])"] 1 2 4 5
  show ?thesis unfolding 8 by simp
qed

text \<open>
  The claim as stated fails when the first exposed HTTP port is not the published one:
  the image exposes 80 and 8080, only 8080 is published, and the recommended port is 80.
\<close>

theorem api_port_counterexample:
  "Image (Config api_two_ports) = ''myapp/api:1.0''
   \<and> get_published_ports api_two_ports = Inr [(''8080/tcp'', [''0.0.0.0:8080''])]
   \<and> \<not> has_proxy_signals (detect_proxy_signals api_two_ports)
   \<and> classify_container api_two_ports = Inr ''exposed_directly''
   \<and> is_candidate_for_migration api_two_ports ''exposed_directly''
       = Inr (True, ''HTTP service exposed directly - good migration candidate'')
   \<and> map_of (generate_recommended_labels api_two_ports)
        ''traefik.http.services.my_api.loadbalancer.server.port'' = Some ''80''
   \<and> map_of (generate_recommended_labels api_two_ports)
        ''traefik.http.services.my_api.loadbalancer.server.port'' \<noteq> Some ''8080''"
proof -
  have 1: "Image (Config api_two_ports) = ''myapp/api:1.0''" by code_simp
  have 2: "get_published_ports api_two_ports = Inr [(''8080/tcp'', [''0.0.0.0:8080''])]"
    by code_simp
  have 3: "\<not> has_proxy_signals (detect_proxy_signals api_two_ports)" by code_simp
  have 4: "classify_container api_two_ports = Inr ''exposed_directly''" by code_simp
  have 5: "is_candidate_for_migration api_two_ports ''exposed_directly''
       = Inr (True, ''HTTP service exposed directly - good migration candidate'')"
    by code_simp
  have 6: "map_of (generate_recommended_labels api_two_ports)
        ''traefik.http.services.my_api.loadbalancer.server.port'' = Some ''80''"
    by code_simp
  from 1 2 3 4 5 6 show ?thesis by simp
qed

subsection \<open>Missing substructures\<close>

lemma or_empty_fill: "or_empty (fill_field f) = or_empty f"
  by (simp add: fill_field_def or_empty_def)

lemma fill_get_NetworkSettings:
  "get_NetworkSettings (fill_missing c) =
     (case get_NetworkSettings c of Inl e \<Rightarrow> Inl e | Inr ns \<Rightarrow> Inr (fill_network_settings ns))"
  by (cases "NetworkSettings c")
     (simp_all add: get_NetworkSettings_def fill_missing_def fill_network_settings_def
        fill_field_def or_empty_def)

lemma fill_ports_config: "ports_config (fill_missing c) = ports_config c"
  by (cases "get_NetworkSettings c")
     (simp_all add: ports_config_def fill_get_NetworkSettings fill_network_settings_def
        or_empty_fill)

lemma fill_container_networks: "container_networks (fill_missing c) = container_networks c"
  by (cases "get_NetworkSettings c")
     (simp_all add: container_networks_def fill_get_NetworkSettings fill_network_settings_def
        or_empty_fill)

lemma fill_Config:
  "Image (Config (fill_missing c)) = Image (Config c)"
  "or_empty (Labels (Config (fill_missing c))) = or_empty (Labels (Config c))"
  "or_empty (Env (Config (fill_missing c))) = or_empty (Env (Config c))"
  "or_empty (ExposedPorts (Config (fill_missing c))) = or_empty (ExposedPorts (Config c))"
  by (simp_all add: fill_missing_def or_empty_fill)

lemma fill_detect: "detect_proxy_signals (fill_missing c) = detect_proxy_signals c"
  by (simp add: detect_proxy_signals_def fill_Config)

lemma fill_exposed: "get_exposed_ports (fill_missing c) = get_exposed_ports c"
  by (simp add: get_exposed_ports_def fill_Config)

lemma fill_published: "get_published_ports (fill_missing c) = get_published_ports c"
  by (simp add: get_published_ports_def fill_ports_config)

lemma fill_reverse_proxy: "is_reverse_proxy (fill_missing c) = is_reverse_proxy c"
  unfolding is_reverse_proxy_def fill_ports_config fill_Config by (rule refl)

lemma fill_classify: "classify_container (fill_missing c) = classify_container c"
  unfolding classify_container_def fill_detect fill_published fill_container_networks
  by (rule refl)

lemma fill_http: "is_http_service (fill_missing c) = is_http_service c"
  by (simp add: is_http_service_def fill_exposed fill_Config)

lemma fill_candidate:
  "is_candidate_for_migration (fill_missing c) cls = is_candidate_for_migration c cls"
  by (simp add: is_candidate_for_migration_def fill_reverse_proxy fill_http)

lemma classify_range:
  "classify_container c = Inr cls \<Longrightarrow>
   cls \<in> set [''already_proxied_traefik'', ''already_proxied_other'', ''exposed_directly'',
              ''internal_only'', ''unknown_needs_review'']"
  by (auto simp: classify_container_def Let_def split: sum.splits if_splits)

text \<open>
  Claim C9. On every record whose \<^verbatim>\<open>NetworkSettings\<close> is absent or an object, whatever
  of the label map, environment list, port map, exposed-port map and network map is
  absent or null, the chain of reverse-proxy detection, port and network extraction,
  classification and candidacy returns, with one of the five classifications; and every
  function gives the result it gives on the record with the missing collections written
  out as empty ones.
\<close>

theorem missing_fields_tolerated:
  assumes "NetworkSettings c \<noteq> JNull"
  shows "(\<exists>rp pub nets cls d.
            is_reverse_proxy c = Inr rp
            \<and> get_published_ports c = Inr pub
            \<and> container_networks c = Inr nets
            \<and> classify_container c = Inr cls
            \<and> cls \<in> set [''already_proxied_traefik'', ''already_proxied_other'',
                          ''exposed_directly'', ''internal_only'', ''unknown_needs_review'']
            \<and> is_candidate_for_migration c cls = Inr d)
       \<and> detect_proxy_signals (fill_missing c) = detect_proxy_signals c
       \<and> get_exposed_ports (fill_missing c) = get_exposed_ports c
       \<and> get_published_ports (fill_missing c) = get_published_ports c
       \<and> container_networks (fill_missing c) = container_networks c
       \<and> is_reverse_proxy (fill_missing c) = is_reverse_proxy c
       \<and> classify_container (fill_missing c) = classify_container c
       \<and> is_candidate_for_migration (fill_missing c) cls'
           = is_candidate_for_migration c cls'"
proof -
  obtain rp where 1: "is_reverse_proxy c = Inr rp"
    using assms reverse_proxy_returns by blast
  obtain pub where 2: "get_published_ports c = Inr pub"
    using assms published_returns by blast
  obtain nets where 3: "container_networks c = Inr nets"
    using assms networks_returns by blast
  obtain cls where 4: "classify_container c = Inr cls"
    using assms classify_returns by blast
  obtain d where 5: "is_candidate_for_migration c cls = Inr d"
    using assms candidate_returns by blast
  from 1 2 3 4 5 classify_range [OF 4] show ?thesis
    by (simp only: fill_detect fill_exposed fill_published fill_container_networks
        fill_reverse_proxy fill_classify fill_candidate) blast
qed

theorem missing_fields_tolerated_witness:
  "NetworkSettings bare_container \<noteq> JNull
   \<and> Labels (Config bare_container) = JNull
   \<and> Env (Config bare_container) = Absent
   \<and> ExposedPorts (Config bare_container) = JNull
   \<and> is_reverse_proxy bare_container = Inr False
   \<and> get_published_ports bare_container = Inr []
   \<and> classify_container (fill_missing bare_container) = Inr ''internal_only''
   \<and> is_candidate_for_migration (fill_missing bare_container) ''internal_only''
        = Inr (False, ''Internal service, not HTTP'')"
proof -
  have 1: "NetworkSettings bare_container \<noteq> JNull" by code_simp
  have 2: "Labels (Config bare_container) = JNull \<and> Env (Config bare_container) = Absent
           \<and> ExposedPorts (Config bare_container) = JNull"
    by code_simp
  have 3: "is_reverse_proxy bare_container = Inr False" by code_simp
  have 4: "get_published_ports bare_container = Inr []" by code_simp
  have 5: "classify_container bare_container = Inr ''internal_only''" by code_simp
  have 6: "is_candidate_for_migration bare_container ''internal_only''
        = Inr (False, ''Internal service, not HTTP'')"
    by code_simp
  from missing_fields_tolerated [OF 1, of "''internal_only''"] 1 2 3 4 5 6
  show ?thesis by simp
qed

subsection \<open>The lifecycle status\<close>

lemma status_get_NetworkSettings:
  "get_NetworkSettings (c\<lparr>State := st\<rparr>) = get_NetworkSettings c"
  by (simp add: get_NetworkSettings_def)

lemma status_ports_config: "ports_config (c\<lparr>State := st\<rparr>) = ports_config c"
  by (simp add: ports_config_def status_get_NetworkSettings)

lemma status_container_networks:
  "container_networks (c\<lparr>State := st\<rparr>) = container_networks c"
  by (simp add: container_networks_def status_get_NetworkSettings)

lemma status_detect: "detect_proxy_signals (c\<lparr>State := st\<rparr>) = detect_proxy_signals c"
  by (simp add: detect_proxy_signals_def)

lemma status_exposed: "get_exposed_ports (c\<lparr>State := st\<rparr>) = get_exposed_ports c"
  by (simp add: get_exposed_ports_def)

lemma status_published: "get_published_ports (c\<lparr>State := st\<rparr>) = get_published_ports c"
  by (simp add: get_published_ports_def status_ports_config)

lemma status_Config: "Config (c\<lparr>State := st\<rparr>) = Config c"
  by simp

lemma status_reverse_proxy: "is_reverse_proxy (c\<lparr>State := st\<rparr>) = is_reverse_proxy c"
  unfolding is_reverse_proxy_def status_ports_config status_Config by (rule refl)

lemma status_classify: "classify_container (c\<lparr>State := st\<rparr>) = classify_container c"
  unfolding classify_container_def status_detect status_published status_container_networks
  by (rule refl)

lemma status_http: "is_http_service (c\<lparr>State := st\<rparr>) = is_http_service c"
  by (simp add: is_http_service_def status_exposed)

lemma status_candidate:
  "is_candidate_for_migration (c\<lparr>State := st\<rparr>) cls = is_candidate_for_migration c cls"
  by (simp add: is_candidate_for_migration_def status_reverse_proxy status_http)

lemma status_risks: "analyze_risks (c\<lparr>State := st\<rparr>) pub = analyze_risks c pub"
  by (simp add: analyze_risks_def status_exposed)

lemma status_labels:
  "generate_recommended_labels (c\<lparr>State := st\<rparr>) = generate_recommended_labels c"
  by (simp add: generate_recommended_labels_def status_exposed)

lemma status_entry:
  "make_entry (c\<lparr>State := st\<rparr>) nets pub cls d
     = (make_entry c nets pub cls d)\<lparr>status := Status st\<rparr>"
  by (simp add: make_entry_def status_exposed status_detect status_labels status_risks)

text \<open>
  Claim C10. Two records that differ only in the lifecycle status get the same answer
  from the detector, the signal extractors, the classifier, the HTTP test, the candidacy
  decision, the risk notes and the label recommender; the analysis entries built from
  them differ in the copied status field only.
\<close>

theorem status_noninterference:
  "is_reverse_proxy (c\<lparr>State := st\<rparr>) = is_reverse_proxy c
   \<and> detect_proxy_signals (c\<lparr>State := st\<rparr>) = detect_proxy_signals c
   \<and> get_published_ports (c\<lparr>State := st\<rparr>) = get_published_ports c
   \<and> classify_container (c\<lparr>State := st\<rparr>) = classify_container c
   \<and> is_http_service (c\<lparr>State := st\<rparr>) = is_http_service c
   \<and> is_candidate_for_migration (c\<lparr>State := st\<rparr>) cls = is_candidate_for_migration c cls
   \<and> analyze_risks (c\<lparr>State := st\<rparr>) pub = analyze_risks c pub
   \<and> generate_recommended_labels (c\<lparr>State := st\<rparr>) = generate_recommended_labels c
   \<and> make_entry (c\<lparr>State := st\<rparr>) nets pub cls d
       = (make_entry c nets pub cls d)\<lparr>status := Status st\<rparr>"
  by (simp only: status_reverse_proxy status_detect status_published status_classify
      status_http status_candidate status_risks status_labels status_entry simp_thms)

theorem status_noninterference_witness:
  "Status (State api_container) = ''running''
   \<and> classify_container (api_container\<lparr>State := \<lparr>Status = ''exited''\<rparr>\<rparr>)
       = Inr ''exposed_directly''
   \<and> is_candidate_for_migration (api_container\<lparr>State := \<lparr>Status = ''exited''\<rparr>\<rparr>)
         ''exposed_directly''
       = Inr (True, ''HTTP service exposed directly - good migration candidate'')"
proof -
  have 1: "Status (State api_container) = ''running''" by code_simp
  have 2: "classify_container api_container = Inr ''exposed_directly''" by code_simp
  have 3: "is_candidate_for_migration api_container ''exposed_directly''
       = Inr (True, ''HTTP service exposed directly - good migration candidate'')"
    by code_simp
  from status_noninterference [where c = api_container and st = "\<lparr>Status = ''exited''\<rparr>"
      and cls = "''exposed_directly''"] 1 2 3
  show ?thesis by simp
qed

end
